theory Spec2Isabelle
  imports
    Complex_Main
    "HOL-Library.Char_ord"
    "HOL-Library.List_Lexorder"
    "HOL-Library.AList"
    "HOL-Library.Sublist"
    "HOL-Library.Log_Nat"
begin

section \<open>GazelleSort: a shallow embedding of \<^verbatim>\<open>gazellesort.py\<close>\<close>

text \<open>
  The program reads a JSON configuration, talks to a tracker's JSON API, scrapes
  identifier pairs from HTML pages, and issues one \<^verbatim>\<open>cp -Rl\<close> command per release it
  places. Everything it handles is a decoded JSON value, so the embedding works on a
  datatype of JSON values, and the exceptions Python raises on a value of the wrong
  shape are results of the model.

  Conventions of the embedding:
  \<^item> a Python \<^verbatim>\<open>str\<close> is a \<^typ>\<open>string\<close>; on ASCII text the characters are the code
    points, and the order of \<^typ>\<open>string\<close> (lexicographic by character code) is the order
    Python's \<^verbatim>\<open>sorted\<close> uses on \<^verbatim>\<open>str\<close>;
  \<^item> a JSON number is an integer (\<^verbatim>\<open>JInt\<close>); JSON floats are outside the model;
  \<^item> a Python \<^verbatim>\<open>dict\<close> is an association list in insertion order, its keys distinct as
    in a dict, looked up with \<^const>\<open>map_of\<close>;
  \<^item> an exception is a value \<^verbatim>\<open>Inl e\<close> of the result type \<^verbatim>\<open>pyerr + 'a\<close>;
  \<^item> the HTTP session, the JSON decoder, \<^verbatim>\<open>html.unescape\<close>'s entity table and the
    \<^verbatim>\<open>cp\<close> program are not code of the repository: what they hand to the program is
    an argument of the model, and what the program hands to them is a result.
\<close>

subsection \<open>Values and exceptions\<close>

datatype json =
    JNull
  | JBool bool
  | JInt int
  | JStr string
  | JList "json list"
  | JObj "(string \<times> json) list"

text \<open>
  The exceptions the modelled code can raise. \<^verbatim>\<open>RequestException\<close> is the program's own
  class (\<^verbatim>\<open>GazelleSort.RequestException\<close>) and carries its message; \<^verbatim>\<open>KeyError\<close> carries
  the missing key. \<^verbatim>\<open>NotModelled\<close> is not a Python exception: it marks the places where
  the program leaves the fragment of Python's string formatting that the embedding
  covers (see \<^verbatim>\<open>py_str\<close> and \<^verbatim>\<open>py_format\<close>).
\<close>

datatype pyerr =
    RequestException string
  | KeyError string
  | TypeError
  | AttributeError
  | ValueError
  | ZeroDivisionError
  | OverflowError
  | NotModelled

definition bnd :: "pyerr + 'a \<Rightarrow> ('a \<Rightarrow> pyerr + 'b) \<Rightarrow> pyerr + 'b" where
  "bnd m f = (case m of Inl e \<Rightarrow> Inl e | Inr x \<Rightarrow> f x)"

text \<open>A list comprehension whose element expression can raise: left to right, the first
  exception wins.\<close>

fun list_comp :: "('a \<Rightarrow> pyerr + 'b) \<Rightarrow> 'a list \<Rightarrow> pyerr + 'b list" where
  "list_comp f [] = Inr []"
| "list_comp f (x # xs) = bnd (f x) (\<lambda>y. bnd (list_comp f xs) (\<lambda>ys. Inr (y # ys)))"

text \<open>\<^verbatim>\<open>obj[key]\<close> with a string key: only a dict has string subscripts.\<close>

fun getitem :: "json \<Rightarrow> string \<Rightarrow> pyerr + json" where
  "getitem (JObj kvs) k = (case map_of kvs k of None \<Rightarrow> Inl (KeyError k) | Some v \<Rightarrow> Inr v)"
| "getitem _ k = Inl TypeError"

text \<open>\<^verbatim>\<open>obj[k1][k2]...\<close>, left to right.\<close>

fun getpath :: "json \<Rightarrow> string list \<Rightarrow> pyerr + json" where
  "getpath v [] = Inr v"
| "getpath v (k # ks) = bnd (getitem v k) (\<lambda>w. getpath w ks)"

text \<open>
  \<^verbatim>\<open>x in obj\<close> where \<^verbatim>\<open>x\<close> is a \<^verbatim>\<open>str\<close> (\<^verbatim>\<open>Some s\<close>) or \<^verbatim>\<open>None\<close>: key membership in a
  dict, element membership in a list, substring test in a string (which refuses \<^verbatim>\<open>None\<close>
  as left operand); the other JSON values are not containers.
\<close>

fun contains :: "string option \<Rightarrow> json \<Rightarrow> pyerr + bool" where
  "contains x (JObj kvs) = Inr (case x of None \<Rightarrow> False | Some s \<Rightarrow> s \<in> set (map fst kvs))"
| "contains x (JList vs) = Inr ((case x of None \<Rightarrow> JNull | Some s \<Rightarrow> JStr s) \<in> set vs)"
| "contains x (JStr t) = (case x of None \<Rightarrow> Inl TypeError | Some s \<Rightarrow> Inr (sublist s t))"
| "contains x _ = Inl TypeError"

subsection \<open>\<^verbatim>\<open>checkConfig\<close>\<close>






subsection \<open>Strings: \<^verbatim>\<open>str()\<close>, \<^verbatim>\<open>str.join\<close>, \<^verbatim>\<open>sorted\<close>, \<^verbatim>\<open>%\<close>\<close>

definition digit_char :: "nat \<Rightarrow> char" where
  "digit_char n = ''0123456789'' ! n"

fun dec_nat :: "nat \<Rightarrow> string" where
  "dec_nat n = (if n < 10 then [digit_char n] else dec_nat (n div 10) @ [digit_char (n mod 10)])"

declare dec_nat.simps [simp del]

text \<open>\<^verbatim>\<open>str(i)\<close> of an \<^verbatim>\<open>int\<close>.\<close>

definition str_int :: "int \<Rightarrow> string" where
  "str_int i = (if i < 0 then CHR ''-'' # dec_nat (nat (- i)) else dec_nat (nat i))"

text \<open>
  \<^verbatim>\<open>str(v)\<close>, which \<^verbatim>\<open>%s\<close> applies to its argument. The \<^verbatim>\<open>str\<close> of a list or a dict is
  built from \<^verbatim>\<open>repr\<close>, which the embedding does not cover.
\<close>

fun py_str :: "json \<Rightarrow> pyerr + string" where
  "py_str (JStr s) = Inr s"
| "py_str (JInt i) = Inr (str_int i)"
| "py_str (JBool b) = Inr (if b then ''True'' else ''False'')"
| "py_str JNull = Inr ''None''"
| "py_str _ = Inl NotModelled"

fun py_join :: "string \<Rightarrow> string list \<Rightarrow> string" where
  "py_join j [] = []"
| "py_join j [x] = x"
| "py_join j (x # y # ys) = x @ j @ py_join j (y # ys)"

fun the_str :: "json \<Rightarrow> string option" where
  "the_str (JStr s) = Some s"
| "the_str _ = None"

text \<open>
  \<^verbatim>\<open>joiner.join(sorted(names))\<close> for a \<^verbatim>\<open>str\<close> joiner. When every name is a \<^verbatim>\<open>str\<close>,
  \<^verbatim>\<open>sorted\<close> orders them by code point and \<^verbatim>\<open>join\<close> concatenates them. When some name is
  not a \<^verbatim>\<open>str\<close>, either \<^verbatim>\<open>sorted\<close> fails to compare two values or \<^verbatim>\<open>join\<close> refuses the
  item: a \<^verbatim>\<open>TypeError\<close> in both cases.
\<close>

definition sorted_join :: "string \<Rightarrow> json list \<Rightarrow> pyerr + string" where
  "sorted_join j names =
     (if None \<in> set (map the_str names) then Inl TypeError
      else Inr (py_join j (sort (map (\<lambda>v. the (the_str v)) names))))"

text \<open>
  The mapping key of a \<^verbatim>\<open>%(key)s\<close> conversion: the text after the opening parenthesis up
  to the parenthesis that closes it, nested parentheses counted (the first argument is
  the number of parentheses still open inside the key). \<^verbatim>\<open>None\<close> when the string ends
  first.
\<close>

fun split_key :: "nat \<Rightarrow> string \<Rightarrow> (string \<times> string) option" where
  "split_key d [] = None"
| "split_key d (c # cs) =
     (if c = CHR '')'' then
        (case d of 0 \<Rightarrow> Some ([], cs)
         | Suc d' \<Rightarrow> map_option (\<lambda>(k, r). (c # k, r)) (split_key d' cs))
      else if c = CHR ''('' then map_option (\<lambda>(k, r). (c # k, r)) (split_key (Suc d) cs)
      else map_option (\<lambda>(k, r). (c # k, r)) (split_key d cs))"

lemma split_key_shorter: "split_key d s = Some (k, r) \<Longrightarrow> length r < length s"
proof (induction s arbitrary: d k r)
  case Nil
  then show ?case by simp
next
  case (Cons c cs)
  then show ?case
    by (fastforce split: if_splits nat.splits)
qed

text \<open>
  \<^verbatim>\<open>template % mapping\<close> for a \<^verbatim>\<open>str\<close> template and a dict. The embedding covers literal
  text, \<^verbatim>\<open>%%\<close> and \<^verbatim>\<open>%(key)s\<close>: a key that is not in the dict raises \<^verbatim>\<open>KeyError\<close> (looked
  up as soon as the key is read), a template that ends inside a conversion raises
  \<^verbatim>\<open>ValueError\<close>. Every other conversion (flags, widths, \<^verbatim>\<open>%(key)d\<close>, a conversion without a
  key) is outside the fragment and yields \<^verbatim>\<open>NotModelled\<close>.
\<close>

function py_format :: "string \<Rightarrow> (string \<times> json) list \<Rightarrow> pyerr + string" where
  "py_format [] d = Inr []"
| "py_format (c # cs) d =
     (if c \<noteq> CHR ''%'' then bnd (py_format cs d) (\<lambda>t. Inr (c # t))
      else
        (case cs of
           [] \<Rightarrow> Inl ValueError
         | x # r \<Rightarrow>
             if x = CHR ''%'' then bnd (py_format r d) (\<lambda>t. Inr (CHR ''%'' # t))
             else if x = CHR ''('' then
               (case split_key 0 r of
                  None \<Rightarrow> Inl ValueError
                | Some (key, r') \<Rightarrow>
                    (case map_of d key of
                       None \<Rightarrow> Inl (KeyError key)
                     | Some v \<Rightarrow>
                         (case r' of
                            [] \<Rightarrow> Inl ValueError
                          | y # r'' \<Rightarrow>
                              if y = CHR ''s'' then
                                bnd (py_str v) (\<lambda>s. bnd (py_format r'' d) (\<lambda>t. Inr (s @ t)))
                              else Inl NotModelled)))
             else Inl NotModelled))"
  by pat_completeness auto
termination
  by (relation "measure (\<lambda>(s, d). length s)") (auto dest: split_key_shorter)

text \<open>\<^verbatim>\<open>pattern % formatdata\<close> where the left operand is any JSON value.\<close>

fun py_mod :: "json \<Rightarrow> (string \<times> json) list \<Rightarrow> pyerr + string" where
  "py_mod (JStr p) d = py_format p d"
| "py_mod _ d = Inl TypeError"

subsection \<open>\<^verbatim>\<open>renderName\<close>\<close>

text \<open>\<^verbatim>\<open>len(v)\<close> and the items a \<^verbatim>\<open>for\<close> loop over \<^verbatim>\<open>v\<close> visits.\<close>

fun py_len :: "json \<Rightarrow> pyerr + int" where
  "py_len (JList vs) = Inr (int (length vs))"
| "py_len (JObj kvs) = Inr (int (length kvs))"
| "py_len (JStr s) = Inr (int (length s))"
| "py_len _ = Inl TypeError"

fun py_iter :: "json \<Rightarrow> pyerr + json list" where
  "py_iter (JList vs) = Inr vs"
| "py_iter (JObj kvs) = Inr (map (\<lambda>kv. JStr (fst kv)) kvs)"
| "py_iter (JStr s) = Inr (map (\<lambda>c. JStr [c]) s)"
| "py_iter _ = Inl TypeError"

text \<open>\<^verbatim>\<open>n > v\<close> for an \<^verbatim>\<open>int\<close> \<^verbatim>\<open>n\<close>: \<^verbatim>\<open>bool\<close> is a subclass of \<^verbatim>\<open>int\<close>; no other JSON value
  is ordered against an \<^verbatim>\<open>int\<close>.\<close>

fun py_gt :: "int \<Rightarrow> json \<Rightarrow> pyerr + bool" where
  "py_gt n (JInt t) = Inr (t < n)"
| "py_gt n (JBool b) = Inr ((if b then 1 else 0) < n)"
| "py_gt n _ = Inl TypeError"

text \<open>\<^verbatim>\<open>v.join\<close>: only a \<^verbatim>\<open>str\<close> has the attribute.\<close>

fun join_attr :: "json \<Rightarrow> pyerr + string" where
  "join_attr (JStr j) = Inr j"
| "join_attr _ = Inl AttributeError"

text \<open>Lines 209 to 212 of the source: the value bound to \<^verbatim>\<open>artist\<close>.\<close>

definition renderArtist :: "json \<Rightarrow> json \<Rightarrow> pyerr + json" where
  "renderArtist config torrentdata =
     bnd (getpath torrentdata [''group'', ''musicInfo'', ''artists'']) (\<lambda>artists.
     bnd (py_len artists) (\<lambda>n.
     bnd (getpath config [''pattern'', ''listindividualartists'']) (\<lambda>threshold.
     bnd (py_gt n threshold) (\<lambda>many.
       if many then getpath config [''pattern'', ''variousartists'']
       else
         bnd (getpath config [''pattern'', ''artistjoiner'']) (\<lambda>joiner.
         bnd (join_attr joiner) (\<lambda>j.
         bnd (getpath torrentdata [''group'', ''musicInfo'', ''artists'']) (\<lambda>artists'.
         bnd (py_iter artists') (\<lambda>items.
         bnd (list_comp (\<lambda>artist. getitem artist ''name'') items) (\<lambda>names.
         bnd (sorted_join j names) (\<lambda>s. Inr (JStr s)))))))))))"

definition formatdata :: "json \<Rightarrow> json \<Rightarrow> json \<Rightarrow> json \<Rightarrow> (string \<times> json) list" where
  "formatdata artist album year fileformat =
     [(''artist'', artist), (''album'', album), (''year'', year), (''format'', fileformat)]"

definition renderName :: "json \<Rightarrow> json \<Rightarrow> pyerr + string" where
  "renderName config torrentdata =
     bnd (renderArtist config torrentdata) (\<lambda>artist.
     bnd (getpath torrentdata [''torrent'', ''format'']) (\<lambda>fileformat.
     bnd (getpath torrentdata [''group'', ''name'']) (\<lambda>album.
     bnd (getpath torrentdata [''group'', ''year'']) (\<lambda>year.
     bnd (getpath config [''pattern'', ''string'']) (\<lambda>pattern.
       py_mod pattern (formatdata artist album year fileformat))))))"

subsection \<open>\<^verbatim>\<open>processFiles\<close>\<close>

text \<open>
  Lines 231 to 241: the loop body either leaves the iteration at once (\<^verbatim>\<open>continue\<close>, for
  an empty format) or goes on with a \<^verbatim>\<open>desttype\<close> that is a category name or \<^verbatim>\<open>None\<close>.
\<close>

datatype verdict = Continue | Desttype "string option"

definition classify :: "json \<Rightarrow> pyerr + verdict" where
  "classify torrentdata =
     bnd (getpath torrentdata [''torrent'', ''format'']) (\<lambda>fmt.
       if fmt = JStr [] then Inr Continue
       else if fmt = JStr ''FLAC'' then
         bnd (getpath torrentdata [''torrent'', ''encoding'']) (\<lambda>encoding.
           if encoding = JStr ''24bit Lossless'' then Inr (Desttype (Some ''flac24bit''))
           else Inr (Desttype (Some ''flac'')))
       else if fmt = JStr ''MP3'' then Inr (Desttype None)
       else Inr (Desttype None))"

text \<open>\<^verbatim>\<open>s.replace("/", "\\/")\<close>: every slash becomes a backslash followed by a slash. Only a
  \<^verbatim>\<open>str\<close> has the method.\<close>

definition escape_slashes :: "string \<Rightarrow> string" where
  "escape_slashes s = concat (map (\<lambda>c. if c = CHR ''/'' then [CHR 0x5C, CHR ''/''] else [c]) s)"

fun replace_attr :: "json \<Rightarrow> pyerr + string" where
  "replace_attr (JStr s) = Inr (escape_slashes s)"
| "replace_attr _ = Inl AttributeError"

text \<open>\<^verbatim>\<open>os.path.join(a, b)\<close> of \<^verbatim>\<open>posixpath\<close> for a \<^verbatim>\<open>str\<close> \<^verbatim>\<open>b\<close>: an absolute \<^verbatim>\<open>b\<close> replaces
  \<^verbatim>\<open>a\<close>; an \<^verbatim>\<open>a\<close> that is not a \<^verbatim>\<open>str\<close> is refused.\<close>

definition path_join :: "string \<Rightarrow> string \<Rightarrow> string" where
  "path_join a b =
     (if b \<noteq> [] \<and> hd b = CHR ''/'' then b
      else if a = [] \<or> last a = CHR ''/'' then a @ b
      else a @ ''/'' @ b)"

fun os_path_join :: "json \<Rightarrow> string \<Rightarrow> pyerr + string" where
  "os_path_join (JStr a) b = Inr (path_join a b)"
| "os_path_join _ b = Inl TypeError"

text \<open>
  \<^verbatim>\<open>html.unescape(s)\<close> of the standard library returns \<^verbatim>\<open>s\<close> itself when it holds no
  ampersand and otherwise substitutes the character references; the substitution, with
  its table of entities, is the parameter \<^verbatim>\<open>charref\<close>.
\<close>

definition html_unescape :: "(string \<Rightarrow> string) \<Rightarrow> string \<Rightarrow> string" where
  "html_unescape charref s = (if CHR ''&'' \<notin> set s then s else charref s)"

text \<open>
  One iteration of the loop of \<^verbatim>\<open>processFiles\<close>: the argument list of the \<^verbatim>\<open>cp\<close> process it
  starts, \<^verbatim>\<open>None\<close> when it starts none. \<^verbatim>\<open>subprocess.call\<close> returns the exit status of
  \<^verbatim>\<open>cp\<close>, which the source discards, so a failing copy raises nothing.
\<close>

definition processRelease :: "(string \<Rightarrow> string) \<Rightarrow> json \<Rightarrow> json \<Rightarrow> pyerr + string list option" where
  "processRelease charref config torrentdata =
     bnd (classify torrentdata) (\<lambda>v.
       case v of
         Continue \<Rightarrow> Inr None
       | Desttype desttype \<Rightarrow>
           bnd (getitem config ''destdirs'') (\<lambda>destdirs.
           bnd (contains desttype destdirs) (\<lambda>hit.
             if \<not> hit then Inr None
             else
               bnd (case desttype of None \<Rightarrow> Inl TypeError | Some k \<Rightarrow> getitem destdirs k) (\<lambda>destdir.
               bnd (getitem config ''torrentdir'') (\<lambda>torrentdir.
               bnd (getpath torrentdata [''torrent'', ''filePath'']) (\<lambda>filePath.
               bnd (replace_attr filePath) (\<lambda>escaped.
               bnd (os_path_join torrentdir escaped) (\<lambda>olddir.
               bnd (renderName config torrentdata) (\<lambda>name.
               bnd (os_path_join destdir name) (\<lambda>newdir.
                 Inr (Some [''cp'', ''-Rl'', html_unescape charref olddir,
                            html_unescape charref newdir])))))))))))"

text \<open>
  The loop over \<^verbatim>\<open>self.torrentdata\<close> (a dict from torrent id to metadata, in insertion
  order): the commands issued, in order, and the exception that ended the loop, if any.
  Nothing in \<^verbatim>\<open>processFiles\<close> or its caller \<^verbatim>\<open>run\<close> catches an exception.
\<close>

fun processFiles :: "(string \<Rightarrow> string) \<Rightarrow> json \<Rightarrow> (int \<times> json) list \<Rightarrow> string list list \<times> pyerr option" where
  "processFiles charref config [] = ([], None)"
| "processFiles charref config (kv # rest) =
     (case processRelease charref config (snd kv) of
        Inl e \<Rightarrow> ([], Some e)
      | Inr None \<Rightarrow> processFiles charref config rest
      | Inr (Some cmd) \<Rightarrow>
          (case processFiles charref config rest of (cmds, r) \<Rightarrow> (cmd # cmds, r)))"

subsection \<open>\<^verbatim>\<open>ajaxrequest\<close>\<close>

text \<open>
  What \<^verbatim>\<open>session.get\<close> hands back, as far as the program reads it: the final URL, the
  HTTP status code, and the decoded body (\<^verbatim>\<open>None\<close> when \<^verbatim>\<open>response.json()\<close> raises
  \<^verbatim>\<open>json.JSONDecodeError\<close>).
\<close>

record response =
  resp_url :: string
  resp_status :: int
  resp_json :: "json option"

definition is_hex :: "char \<Rightarrow> bool" where
  "is_hex c = (c \<in> set ''0123456789abcdefABCDEF'')"

text \<open>
  \<^verbatim>\<open>re.sub("auth=[\da-fA-F]+", "auth=REDACTED", s)\<close>: from left to right, each
  \<^verbatim>\<open>auth=\<close> that is followed by a hexadecimal digit is replaced, together with the
  longest run of hexadecimal digits after it; every other character is kept.
\<close>

function redact :: "string \<Rightarrow> string" where
  "redact [] = []"
| "redact (c # cs) =
     (if prefix ''auth='' (c # cs) \<and> takeWhile is_hex (drop 4 cs) \<noteq> []
      then ''auth=REDACTED'' @ redact (dropWhile is_hex (drop 4 cs))
      else c # redact cs)"
  by pat_completeness auto
termination
  by (relation "measure length") (auto intro: le_less_trans [OF length_dropWhile_le])

declare redact.simps(2) [simp del]

text \<open>The request \<^verbatim>\<open>params\<close>: \<^verbatim>\<open>action\<close>, then the keyword arguments, then \<^verbatim>\<open>auth\<close> when an
  authentication key is known (dict updates, so a repeated key keeps its first place).
  \<^verbatim>\<open>self.authkey\<close> is \<^verbatim>\<open>None\<close> (\<^verbatim>\<open>JNull\<close>) until the login has been confirmed.\<close>

definition request_params :: "string \<Rightarrow> (string \<times> json) list \<Rightarrow> json \<Rightarrow> (string \<times> json) list" where
  "request_params action kwargs authkey =
     (let params = AList.updates (map fst kwargs) (map snd kwargs) [(''action'', JStr action)]
      in if authkey = JNull then params else AList.update ''auth'' authkey params)"

text \<open>\<^verbatim>\<open>a + "literal"\<close> for a JSON value \<^verbatim>\<open>a\<close>.\<close>

fun str_concat :: "json \<Rightarrow> string \<Rightarrow> pyerr + string" where
  "str_concat (JStr a) b = Inr (a @ b)"
| "str_concat _ b = Inl TypeError"

text \<open>Lines 132 to 142: what \<^verbatim>\<open>ajaxrequest\<close> makes of a response.\<close>

definition decode_response :: "response \<Rightarrow> pyerr + json" where
  "decode_response r =
     (case resp_json r of
        None \<Rightarrow>
          Inl (RequestException
                 (''Request didn't return any JSON. HTTP status code: '' @ str_int (resp_status r)))
      | Some decoded \<Rightarrow>
          bnd (getitem decoded ''status'') (\<lambda>status.
            if status = JStr ''success'' then Inr decoded
            else
              bnd (contains (Some ''error'') decoded) (\<lambda>has_error.
                if has_error then
                  bnd (getitem decoded ''error'') (\<lambda>err.
                  bnd (py_str err) (\<lambda>text.
                    Inl (RequestException
                           (''Request '' @ [CHR 0x27] @ redact (resp_url r) @ [CHR 0x27]
                            @ '' failed. Error: '' @ text))))
                else
                  Inl (RequestException
                         (''Request '' @ [CHR 0x27] @ resp_url r @ [CHR 0x27]
                          @ '' failed. No Error message was returned by API.'')))))"

text \<open>
  \<^verbatim>\<open>ajaxrequest(action, **kwargs)\<close>. The session is the parameter \<^verbatim>\<open>http\<close>: the response
  to a GET of a URL with given parameters. Transport failures of the session and the
  rate limiter's delay are outside the model.
\<close>

definition ajaxrequest ::
  "(string \<Rightarrow> (string \<times> json) list \<Rightarrow> response) \<Rightarrow> json \<Rightarrow> json \<Rightarrow> string
     \<Rightarrow> (string \<times> json) list \<Rightarrow> pyerr + json" where
  "ajaxrequest http config authkey action kwargs =
     bnd (getitem config ''url'') (\<lambda>url.
     bnd (str_concat url ''/ajax.php'') (\<lambda>ajax.
       decode_response (http ajax (request_params action kwargs authkey))))"

subsection \<open>True division and \<^verbatim>\<open>math.ceil\<close>\<close>

text \<open>
  \<^verbatim>\<open>a / b\<close> on two \<^verbatim>\<open>int\<close>s is a \<^verbatim>\<open>float\<close>: the IEEE 754 double nearest to the exact
  quotient, ties to the even significand. A finite double is a rational number, so the
  embedding computes that rational: \<^verbatim>\<open>binexp a b\<close> is the binary exponent \<open>e\<close> of the
  quotient (\<open>2^e \<le> a / b < 2^(e + 1)\<close>), the spacing of the doubles around it is
  \<open>2^(e - 52)\<close> (exponents below \<open>-1022\<close> share the spacing of the subnormal numbers), and
  the quotient is rounded to a multiple of the spacing.
\<close>

definition pow2 :: "int \<Rightarrow> rat" where
  "pow2 e = (if 0 \<le> e then 2 ^ nat e else 1 / 2 ^ nat (- e))"

definition binexp :: "int \<Rightarrow> int \<Rightarrow> int" where
  "binexp a b =
     (let e = bitlen a - bitlen b
      in if pow2 e * of_int b \<le> of_int a then e else e - 1)"

definition round_half_even :: "rat \<Rightarrow> int" where
  "round_half_even y =
     (let f = \<lfloor>y\<rfloor>; d = y - of_int f
      in if d < 1 / 2 then f else if 1 / 2 < d then f + 1 else if even f then f else f + 1)"

text \<open>The double nearest to \<open>a / b\<close> for positive \<open>a\<close> and \<open>b\<close>, the exponent not yet bounded
  from above.\<close>

definition float_div :: "int \<Rightarrow> int \<Rightarrow> rat" where
  "float_div a b =
     (let e = max (binexp a b) (- 1022); u = pow2 (e - 52)
      in of_int (round_half_even (of_int a / (of_int b * u))) * u)"

definition py_truediv :: "int \<Rightarrow> int \<Rightarrow> pyerr + rat" where
  "py_truediv a b =
     (if b = 0 then Inl ZeroDivisionError
      else if a = 0 then Inr 0
      else
        let v = float_div \<bar>a\<bar> \<bar>b\<bar>
        in if pow2 1024 \<le> v then Inl OverflowError
           else Inr (if (a < 0) = (b < 0) then v else - v))"

text \<open>The left operand of \<^verbatim>\<open>/\<close> when it is a JSON value: \<^verbatim>\<open>bool\<close> counts as \<^verbatim>\<open>int\<close>.\<close>

fun as_int :: "json \<Rightarrow> pyerr + int" where
  "as_int (JInt n) = Inr n"
| "as_int (JBool b) = Inr (if b then 1 else 0)"
| "as_int _ = Inl TypeError"

text \<open>\<^verbatim>\<open>math.ceil(seeding / 50)\<close>.\<close>

definition page_count :: "json \<Rightarrow> pyerr + int" where
  "page_count seeding =
     bnd (as_int seeding) (\<lambda>n.
     bnd (py_truediv n 50) (\<lambda>q. Inr \<lceil>q\<rceil>))"

subsection \<open>\<^verbatim>\<open>getSnatched\<close> and \<^verbatim>\<open>readPage\<close>\<close>

definition is_digit :: "char \<Rightarrow> bool" where
  "is_digit c = (c \<in> set ''0123456789'')"

text \<open>
  A match of the regular expression
  \<^verbatim>\<open>torrents.php\?id=(?P<groupid>\d+)&amp;torrentid=(?P<torrentid>\d+)\<close>
  at the start of a string: the two groups and the text after the match. The dot is
  not escaped in the source, so it stands for any character but a newline. Each \<^verbatim>\<open>\d+\<close>
  takes the longest run of digits: the text that has to follow the first run starts
  with \<^verbatim>\<open>&\<close>, so no shorter run can match, and nothing has to follow the second.
\<close>

definition match_link :: "string \<Rightarrow> ((string \<times> string) \<times> string) option" where
  "match_link s =
     (if take 8 s = ''torrents'' \<and> 8 < length s \<and> s ! 8 \<noteq> CHR 0x0A
         \<and> take 7 (drop 9 s) = ''php?id=''
      then
        (let r1 = drop 16 s; g = takeWhile is_digit r1; r2 = dropWhile is_digit r1
         in if g \<noteq> [] \<and> take 15 r2 = ''&amp;torrentid=''
            then
              (let r3 = drop 15 r2; t = takeWhile is_digit r3
               in if t \<noteq> [] then Some ((g, t), dropWhile is_digit r3) else None)
            else None)
      else None)"

lemma match_link_shorter: "match_link s = Some (m, r) \<Longrightarrow> length r < length s"
proof -
  assume a: "match_link s = Some (m, r)"
  then have r: "r = dropWhile is_digit (drop 15 (dropWhile is_digit (drop 16 s)))"
    and s: "8 < length s"
    by (auto simp: match_link_def Let_def split: if_splits)
  have "length r \<le> length (drop 15 (dropWhile is_digit (drop 16 s)))"
    unfolding r by (rule length_dropWhile_le)
  also have "\<dots> \<le> length (dropWhile is_digit (drop 16 s))" by simp
  also have "\<dots> \<le> length (drop 16 s)" by (rule length_dropWhile_le)
  also have "\<dots> < length s" using s by simp
  finally show ?thesis .
qed

text \<open>\<^verbatim>\<open>re.findall\<close>: the matches from left to right, each search starting where the
  previous match ended.\<close>

function findall_links :: "string \<Rightarrow> (string \<times> string) list" where
  "findall_links [] = []"
| "findall_links (c # cs) =
     (case match_link (c # cs) of
        Some (m, rest) \<Rightarrow> m # findall_links rest
      | None \<Rightarrow> findall_links cs)"
  by pat_completeness auto
termination
  by (relation "measure length") (auto dest: match_link_shorter)

text \<open>\<^verbatim>\<open>int(s)\<close> of a run of decimal digits (the cap on the number of digits that
  interpreters from 3.11 on put on \<^verbatim>\<open>int()\<close> is not modelled).\<close>

definition int_of_digits :: "string \<Rightarrow> int" where
  "int_of_digits ds = foldl (\<lambda>n c. 10 * n + (int (of_char c) - 48)) 0 ds"

text \<open>The records \<^verbatim>\<open>readPage\<close> appends to \<^verbatim>\<open>self.snatches\<close> for a decoded page body.\<close>

definition readPage :: "string \<Rightarrow> (int \<times> int) list" where
  "readPage body = map (\<lambda>x. (int_of_digits (fst x), int_of_digits (snd x))) (findall_links body)"

text \<open>The URL \<^verbatim>\<open>readPage(page)\<close> fetches.\<close>

definition page_url :: "string \<Rightarrow> nat \<Rightarrow> json \<Rightarrow> pyerr + string" where
  "page_url torrents page userid =
     bnd (py_str userid) (\<lambda>u.
       Inr (torrents @ ''?type=seeding&page='' @ str_int (int page + 1) @ ''&userid='' @ u))"

text \<open>
  The loop \<^verbatim>\<open>for page in range(pages): readPage(page)\<close>. The state is \<^verbatim>\<open>self.snatches\<close>
  and the list of the URLs fetched so far; \<^verbatim>\<open>get\<close> is the session: the decoded body
  served for a URL. \<^verbatim>\<open>self.userid\<close> is an argument (\<^verbatim>\<open>run\<close> sets it from the index call);
  a body that does not decode is outside the model.
\<close>

fun read_pages ::
  "(string \<Rightarrow> string) \<Rightarrow> string \<Rightarrow> json \<Rightarrow> nat list \<Rightarrow> (int \<times> int) list \<times> string list
     \<Rightarrow> pyerr + (int \<times> int) list \<times> string list" where
  "read_pages get torrents userid [] st = Inr st"
| "read_pages get torrents userid (page # rest) st =
     bnd (page_url torrents page userid) (\<lambda>u.
       read_pages get torrents userid rest (fst st @ readPage (get u), snd st @ [u]))"

definition getSnatched ::
  "(string \<Rightarrow> (string \<times> json) list \<Rightarrow> response) \<Rightarrow> (string \<Rightarrow> string) \<Rightarrow> json \<Rightarrow> json \<Rightarrow> json
     \<Rightarrow> (int \<times> int) list \<Rightarrow> pyerr + (int \<times> int) list \<times> string list" where
  "getSnatched http get config authkey userid snatches =
     bnd (getitem config ''url'') (\<lambda>url.
     bnd (str_concat url ''/torrents.php'') (\<lambda>torrents.
     bnd (ajaxrequest http config authkey ''user'' [(''id'', userid)]) (\<lambda>profile.
     bnd (getpath profile [''response'', ''community'', ''seeding'']) (\<lambda>seeding.
     bnd (page_count seeding) (\<lambda>pages.
       read_pages get torrents userid [0..<nat pages] (snatches, []))))))"

subsection \<open>\<^verbatim>\<open>scanTorrents\<close>\<close>

text \<open>\<^verbatim>\<open>xs.index(x)\<close>: the first position of \<^verbatim>\<open>x\<close>.\<close>

fun py_index :: "'a list \<Rightarrow> 'a \<Rightarrow> pyerr + nat" where
  "py_index [] x = Inl ValueError"
| "py_index (y # ys) x = (if y = x then Inr 0 else bnd (py_index ys x) (\<lambda>i. Inr (Suc i)))"

text \<open>The arguments \<^verbatim>\<open>progress\<close> and \<^verbatim>\<open>heartbeat\<close> of the call of \<^verbatim>\<open>printProgressBar\<close> in
  the iteration for \<^verbatim>\<open>id\<close>.\<close>

definition progress_of :: "(int \<times> int) list \<Rightarrow> int \<times> int \<Rightarrow> pyerr + rat \<times> bool" where
  "progress_of snatches ident =
     bnd (py_index snatches ident) (\<lambda>i.
     bnd (py_truediv (int i) (int (length snatches))) (\<lambda>p.
     bnd (py_index snatches ident) (\<lambda>i'. Inr (p, odd i'))))"

text \<open>
  The loop of \<^verbatim>\<open>scanTorrents\<close> over the remaining snatches. The state is the list of
  progress values handed to \<^verbatim>\<open>printProgressBar\<close> so far, and \<^verbatim>\<open>self.torrentdata\<close>; the result
  is the final state and the exception that ended the loop, if any.
\<close>

fun scan_loop ::
  "(string \<Rightarrow> (string \<times> json) list \<Rightarrow> response) \<Rightarrow> json \<Rightarrow> json \<Rightarrow> (int \<times> int) list
     \<Rightarrow> (int \<times> int) list \<Rightarrow> (rat \<times> bool) list \<times> (int \<times> json) list
     \<Rightarrow> ((rat \<times> bool) list \<times> (int \<times> json) list) \<times> pyerr option" where
  "scan_loop http config authkey snatches [] st = (st, None)"
| "scan_loop http config authkey snatches (ident # rest) st =
     (case progress_of snatches ident of
        Inl e \<Rightarrow> (st, Some e)
      | Inr p \<Rightarrow>
          (case bnd (ajaxrequest http config authkey ''torrent'' [(''id'', JInt (snd ident))])
                  (\<lambda>r. getitem r ''response'') of
             Inl e \<Rightarrow> ((fst st @ [p], snd st), Some e)
           | Inr v \<Rightarrow>
               scan_loop http config authkey snatches rest
                 (fst st @ [p], AList.update (snd ident) v (snd st))))"

definition scanTorrents ::
  "(string \<Rightarrow> (string \<times> json) list \<Rightarrow> response) \<Rightarrow> json \<Rightarrow> json \<Rightarrow> (int \<times> int) list
     \<Rightarrow> (int \<times> json) list \<Rightarrow> ((rat \<times> bool) list \<times> (int \<times> json) list) \<times> pyerr option" where
  "scanTorrents http config authkey snatches torrentdata =
     scan_loop http config authkey snatches snatches ([], torrentdata)"

subsection \<open>Vocabulary of the statements, and example values\<close>


text \<open>The configuration and the release of the end-to-end scenario of the specification.\<close>

definition cfg_example :: json where
  "cfg_example =
     JObj [(''url'', JStr ''https://tracker''), (''username'', JStr ''u''),
           (''password'', JStr ''p''), (''torrentdir'', JStr ''/torrents''),
           (''destdirs'', JObj [(''flac'', JStr ''/dest/flac'')]),
           (''pattern'',
              JObj [(''string'', JStr ''%(artist)s - %(album)s (%(year)s) [%(format)s]''),
                    (''variousartists'', JStr ''Various Artists''),
                    (''artistjoiner'', JStr '' & ''),
                    (''listindividualartists'', JInt 2)])]"

definition td_example :: json where
  "td_example =
     JObj [(''group'',
              JObj [(''name'', JStr ''Album X''), (''year'', JInt 2020),
                    (''musicInfo'', JObj [(''artists'', JList [JObj [(''name'', JStr ''Artist A'')]])])]),
           (''torrent'',
              JObj [(''format'', JStr ''FLAC''), (''encoding'', JStr ''Lossless''),
                    (''filePath'', JStr ''Artist A - Album X/CD1'')])]"

text \<open>A configuration with the six settings and nothing inside \<^verbatim>\<open>destdirs\<close> and
  \<^verbatim>\<open>pattern\<close>.\<close>

definition cfg_bare :: json where
  "cfg_bare =
     JObj [(''url'', JStr ''https://tracker''), (''username'', JStr ''u''),
           (''password'', JStr ''p''), (''torrentdir'', JStr ''/torrents''),
           (''destdirs'', JObj []), (''pattern'', JObj [])]"

subsection \<open>Templates of literal text and named placeholders\<close>

text \<open>
  The naming patterns the specification describes: literal text, the escape \<^verbatim>\<open>%%\<close>, and
  placeholders \<^verbatim>\<open>%(key)s\<close>. \<^verbatim>\<open>template_text\<close> is the pattern string of a list of pieces,
  \<^verbatim>\<open>fill\<close> is what a piece stands for once the placeholders are substituted from a dict.
  A piece is well formed when its literal text has no percent sign and its key no
  parenthesis; it is fillable from a dict that has its key with a value \<^verbatim>\<open>str()\<close> covers.
\<close>

datatype piece = Lit string | Percent | Hole string

fun piece_text :: "piece \<Rightarrow> string" where
  "piece_text (Lit s) = s"
| "piece_text Percent = ''%%''"
| "piece_text (Hole k) = ''%('' @ k @ '')s''"

definition template_text :: "piece list \<Rightarrow> string" where
  "template_text ps = concat (map piece_text ps)"

fun well_formed :: "piece \<Rightarrow> bool" where
  "well_formed (Lit s) = (CHR ''%'' \<notin> set s)"
| "well_formed Percent = True"
| "well_formed (Hole k) = (CHR ''('' \<notin> set k \<and> CHR '')'' \<notin> set k)"

fun fillable :: "(string \<times> json) list \<Rightarrow> piece \<Rightarrow> bool" where
  "fillable d (Hole k) = (case map_of d k of None \<Rightarrow> False | Some v \<Rightarrow> (case py_str v of Inl e \<Rightarrow> False | Inr s \<Rightarrow> True))"
| "fillable d _ = True"

fun fill :: "(string \<times> json) list \<Rightarrow> piece \<Rightarrow> string" where
  "fill d (Lit s) = s"
| "fill d Percent = ''%''"
| "fill d (Hole k) = (case map_of d k of None \<Rightarrow> [] | Some v \<Rightarrow> (case py_str v of Inl e \<Rightarrow> [] | Inr s \<Rightarrow> s))"

text \<open>A release with two credited artists, and the pieces of the pattern of
  \<^verbatim>\<open>cfg_example\<close>.\<close>

definition td_duo :: json where
  "td_duo =
     JObj [(''group'',
              JObj [(''name'', JStr ''Album X''), (''year'', JInt 2020),
                    (''musicInfo'',
                       JObj [(''artists'', JList [JObj [(''name'', JStr ''Zed'')],
                                                  JObj [(''name'', JStr ''Abe'')]])])]),
           (''torrent'',
              JObj [(''format'', JStr ''FLAC''), (''encoding'', JStr ''Lossless''),
                    (''filePath'', JStr ''Abe & Zed - Album X'')])]"

definition ps_example :: "piece list" where
  "ps_example = [Hole ''artist'', Lit '' - '', Hole ''album'', Lit '' ('', Hole ''year'',
                 Lit '') ['', Hole ''format'', Lit '']'']"

text \<open>The metadata fields \<^verbatim>\<open>renderName\<close> reads, as paths into the metadata, and the release
  of the example without its group name.\<close>

definition required_fields :: "string list list" where
  "required_fields =
     [[''group'', ''musicInfo'', ''artists''], [''torrent'', ''format''],
      [''group'', ''name''], [''group'', ''year'']]"

definition td_noname :: json where
  "td_noname =
     JObj [(''group'',
              JObj [(''year'', JInt 2020),
                    (''musicInfo'', JObj [(''artists'', JList [JObj [(''name'', JStr ''Artist A'')]])])]),
           (''torrent'',
              JObj [(''format'', JStr ''FLAC''), (''encoding'', JStr ''Lossless''),
                    (''filePath'', JStr ''Artist A - Album X/CD1'')])]"

text \<open>The command that places the release of the example.\<close>

definition cp_example :: "string list" where
  "cp_example =
     [''cp'', ''-Rl'', ''/torrents/Artist A - Album X'' @ [CHR 0x5C] @ ''/CD1'',
      ''/dest/flac/Artist A - Album X (2020) [FLAC]'']"

text \<open>
  Three sessions for the examples: one whose API answers every request with a success
  and an empty payload, one that answers with a failure and an error text (the URL it
  reports echoes an authentication key), and one whose answer is not JSON.
\<close>

definition http_ok :: "string \<Rightarrow> (string \<times> json) list \<Rightarrow> response" where
  "http_ok url params =
     \<lparr>resp_url = url, resp_status = 200,
      resp_json = Some (JObj [(''status'', JStr ''success''), (''response'', JObj [])])\<rparr>"



text \<open>A session whose user-profile call reports a given seeding count.\<close>

definition http_profile :: "int \<Rightarrow> string \<Rightarrow> (string \<times> json) list \<Rightarrow> response" where
  "http_profile n url params =
     \<lparr>resp_url = url, resp_status = 200,
      resp_json = Some (JObj [(''status'', JStr ''success''),
                              (''response'', JObj [(''community'', JObj [(''seeding'', JInt n)])])])\<rparr>"

text \<open>The URL of the listing page with index \<^verbatim>\<open>page\<close>, for a user id printed as \<^verbatim>\<open>us\<close>.\<close>

definition listing_url :: "string \<Rightarrow> string \<Rightarrow> nat \<Rightarrow> string" where
  "listing_url u us page =
     u @ ''/torrents.php?type=seeding&page='' @ str_int (int page + 1) @ ''&userid='' @ us"






section \<open>Properties\<close>

subsection \<open>Helper lemmas\<close>

lemma map_of_mem: "(k \<in> fst ` set kvs) = (map_of kvs k \<noteq> None)"
  by (simp add: map_of_eq_None_iff)





lemma floor_rat_numeral: "\<lfloor>(numeral a :: rat) / numeral b\<rfloor> = numeral a div numeral b"
  using floor_divide_of_int_eq [of "numeral a" "numeral b", where 'a = rat] by simp

lemma ceiling_rat_numeral: "\<lceil>(numeral a :: rat) / numeral b\<rceil> = - ((- numeral a) div numeral b)"
  using floor_divide_of_int_eq [of "- numeral a" "numeral b", where 'a = rat]
  by (simp add: ceiling_def)

subsection \<open>Classification (C1)\<close>

text \<open>
  C1. Classification follows the decision table. A release whose format is the empty
  string leaves the loop body at once and nothing is placed. Format \<^verbatim>\<open>FLAC\<close> with
  encoding \<^verbatim>\<open>24bit Lossless\<close> resolves to \<^verbatim>\<open>flac24bit\<close>, \<^verbatim>\<open>FLAC\<close> with any other encoding to
  \<^verbatim>\<open>flac\<close>. Format \<^verbatim>\<open>MP3\<close> and every other format resolve to no category (\<^verbatim>\<open>None\<close>), and
  with a destination mapping nothing is placed for them. A resolved category whose key
  is not in the destination mapping places nothing either. (The table speaks of releases
  that have a format, and an encoding where it is read; \<^verbatim>\<open>Inr None\<close> of \<^verbatim>\<open>processRelease\<close>
  is the iteration that starts no \<^verbatim>\<open>cp\<close>.)
\<close>

theorem classify_decision_table:
  "(getpath td [''torrent'', ''format''] = Inr (JStr []) \<longrightarrow>
      classify td = Inr Continue \<and> processRelease charref config td = Inr None)
   \<and> (getpath td [''torrent'', ''format''] = Inr (JStr ''FLAC'') \<and>
      getpath td [''torrent'', ''encoding''] = Inr (JStr ''24bit Lossless'') \<longrightarrow>
      classify td = Inr (Desttype (Some ''flac24bit'')))
   \<and> (getpath td [''torrent'', ''format''] = Inr (JStr ''FLAC'') \<and>
      getpath td [''torrent'', ''encoding''] = Inr enc \<and> enc \<noteq> JStr ''24bit Lossless'' \<longrightarrow>
      classify td = Inr (Desttype (Some ''flac'')))
   \<and> (getpath td [''torrent'', ''format''] = Inr (JStr ''MP3'') \<longrightarrow>
      classify td = Inr (Desttype None))
   \<and> (getpath td [''torrent'', ''format''] = Inr f \<and> f \<noteq> JStr [] \<and> f \<noteq> JStr ''FLAC'' \<and>
      f \<noteq> JStr ''MP3'' \<longrightarrow>
      classify td = Inr (Desttype None))
   \<and> (classify td = Inr (Desttype None) \<and> getitem config ''destdirs'' = Inr (JObj dd) \<longrightarrow>
      processRelease charref config td = Inr None)
   \<and> (classify td = Inr (Desttype (Some c)) \<and> getitem config ''destdirs'' = Inr (JObj dd) \<and>
      map_of dd c = None \<longrightarrow>
      processRelease charref config td = Inr None)"
proof (intro conjI impI; (elim conjE)?)
  assume "getpath td [''torrent'', ''format''] = Inr (JStr [])"
  then show "classify td = Inr Continue" by (simp add: classify_def bnd_def)
  then show "processRelease charref config td = Inr None"
    by (simp add: processRelease_def bnd_def)
next
  assume "getpath td [''torrent'', ''format''] = Inr (JStr ''FLAC'')"
    "getpath td [''torrent'', ''encoding''] = Inr (JStr ''24bit Lossless'')"
  then show "classify td = Inr (Desttype (Some ''flac24bit''))"
    by (simp add: classify_def bnd_def)
next
  assume "getpath td [''torrent'', ''format''] = Inr (JStr ''FLAC'')"
    "getpath td [''torrent'', ''encoding''] = Inr enc" "enc \<noteq> JStr ''24bit Lossless''"
  then show "classify td = Inr (Desttype (Some ''flac''))"
    by (simp add: classify_def bnd_def)
next
  assume "getpath td [''torrent'', ''format''] = Inr (JStr ''MP3'')"
  then show "classify td = Inr (Desttype None)"
    by (simp add: classify_def bnd_def)
next
  assume "getpath td [''torrent'', ''format''] = Inr f" "f \<noteq> JStr []" "f \<noteq> JStr ''FLAC''"
    "f \<noteq> JStr ''MP3''"
  then show "classify td = Inr (Desttype None)"
    by (simp add: classify_def bnd_def)
next
  assume "classify td = Inr (Desttype None)" "getitem config ''destdirs'' = Inr (JObj dd)"
  then show "processRelease charref config td = Inr None"
    by (simp add: processRelease_def bnd_def)
next
  assume "classify td = Inr (Desttype (Some c))" "getitem config ''destdirs'' = Inr (JObj dd)"
    "map_of dd c = None"
  then show "processRelease charref config td = Inr None"
    by (simp add: processRelease_def bnd_def map_of_eq_None_iff)
qed

text \<open>The release of the example is a plain FLAC release; with a configuration that has
  no \<^verbatim>\<open>flac\<close> destination it is classified \<^verbatim>\<open>flac\<close> and skipped.\<close>

theorem classify_decision_table_witness:
  "classify td_example = Inr (Desttype (Some ''flac'')) \<and>
   processRelease (\<lambda>s. s) cfg_bare td_example = Inr None"
proof -
  have 1: "getpath td_example [''torrent'', ''format''] = Inr (JStr ''FLAC'')"
    by (simp add: td_example_def bnd_def)
  have 2: "getpath td_example [''torrent'', ''encoding''] = Inr (JStr ''Lossless'')"
    by (simp add: td_example_def bnd_def)
  have 3: "getitem cfg_bare ''destdirs'' = Inr (JObj [])"
    by (simp add: cfg_bare_def)
  from classify_decision_table [where td = td_example and config = cfg_bare
      and enc = "JStr ''Lossless''" and dd = "[]" and c = "''flac''"
      and charref = "\<lambda>s. s"] 1 2 3
  show ?thesis by simp
qed

subsection \<open>Name rendering (C2)\<close>

lemma py_format_literal:
  "CHR ''%'' \<notin> set s \<Longrightarrow> py_format (s @ r) d = bnd (py_format r d) (\<lambda>t. Inr (s @ t))"
  by (induction s) (auto simp: bnd_def split: sum.splits)

lemma split_key_plain:
  "CHR ''('' \<notin> set k \<Longrightarrow> CHR '')'' \<notin> set k \<Longrightarrow> split_key 0 (k @ CHR '')'' # r) = Some (k, r)"
  by (induction k) auto

lemma py_format_hole:
  assumes "CHR ''('' \<notin> set k" "CHR '')'' \<notin> set k" "map_of d k = Some v" "py_str v = Inr s"
  shows "py_format (''%('' @ k @ '')s'' @ r) d = bnd (py_format r d) (\<lambda>t. Inr (s @ t))"
  using assms by (simp add: split_key_plain bnd_def)

lemma py_format_piece:
  "well_formed p \<Longrightarrow> fillable d p \<Longrightarrow>
   py_format (piece_text p @ r) d = bnd (py_format r d) (\<lambda>t. Inr (fill d p @ t))"
proof (cases p)
  case (Lit s)
  assume "well_formed p"
  with Lit show ?thesis by (simp add: py_format_literal)
next
  case Percent
  then show ?thesis by (simp add: bnd_def)
next
  case (Hole k)
  assume wf: "well_formed p" and fl: "fillable d p"
  from fl Hole obtain v s where v: "map_of d k = Some v" and s: "py_str v = Inr s"
    by (auto split: option.splits sum.splits)
  from wf Hole have np: "CHR ''('' \<notin> set k" "CHR '')'' \<notin> set k" by simp_all
  show ?thesis using py_format_hole [OF np v s, of r] Hole v s by simp
qed

lemma py_format_template:
  "list_all well_formed ps \<Longrightarrow> list_all (fillable d) ps \<Longrightarrow>
   py_format (template_text ps) d = Inr (concat (map (fill d) ps))"
proof (induction ps)
  case Nil
  then show ?case by (simp add: template_text_def)
next
  case (Cons p ps)
  then have ih: "py_format (template_text ps) d = Inr (concat (map (fill d) ps))" by simp
  from Cons.prems have "well_formed p" "fillable d p" by simp_all
  then have "py_format (piece_text p @ template_text ps) d =
      bnd (py_format (template_text ps) d) (\<lambda>t. Inr (fill d p @ t))"
    by (rule py_format_piece)
  with ih show ?case by (simp add: template_text_def bnd_def)
qed

lemma sorted_join_strs: "sorted_join j (map JStr ns) = Inr (py_join j (sort ns))"
proof -
  have a: "map the_str (map JStr ns) = map Some ns" by (induction ns) simp_all
  have b: "map (\<lambda>v. the (the_str v)) (map JStr ns) = ns" by (induction ns) simp_all
  have "None \<notin> set (map Some ns)" by auto
  then show ?thesis unfolding sorted_join_def a b by simp
qed

lemma renderArtist_various:
  assumes "getpath td [''group'', ''musicInfo'', ''artists''] = Inr (JList as)"
    and "getpath config [''pattern'', ''listindividualartists''] = Inr (JInt t)"
    and "t < int (length as)"
  shows "renderArtist config td = getpath config [''pattern'', ''variousartists'']"
  using assms unfolding renderArtist_def by (simp add: bnd_def)

lemma renderArtist_joined:
  assumes "getpath td [''group'', ''musicInfo'', ''artists''] = Inr (JList as)"
    and "getpath config [''pattern'', ''listindividualartists''] = Inr (JInt t)"
    and "\<not> t < int (length as)"
    and "getpath config [''pattern'', ''artistjoiner''] = Inr (JStr j)"
    and "list_comp (\<lambda>a. getitem a ''name'') as = Inr (map JStr ns)"
  shows "renderArtist config td = Inr (JStr (py_join j (sort ns)))"
  using assms unfolding renderArtist_def by (simp add: bnd_def sorted_join_strs)

lemma renderName_template:
  assumes "renderArtist config td = Inr a"
    and "getpath td [''torrent'', ''format''] = Inr f"
    and "getpath td [''group'', ''name''] = Inr al"
    and "getpath td [''group'', ''year''] = Inr y"
    and "getpath config [''pattern'', ''string''] = Inr (JStr (template_text ps))"
    and "list_all well_formed ps"
    and "list_all (fillable (formatdata a al y f)) ps"
  shows "renderName config td = Inr (concat (map (fill (formatdata a al y f)) ps))"
  using assms unfolding renderName_def by (simp add: bnd_def py_format_template)

text \<open>
  C2. Name rendering, for a release with a list of credited artists, an integer
  threshold and a pattern of literal text and placeholders. When the number of artists is
  strictly greater than \<^verbatim>\<open>listindividualartists\<close>, the artist field is the configured
  \<^verbatim>\<open>variousartists\<close> label, whatever the artists are (their names are not even read).
  Otherwise it is the artists' names sorted by character code and joined by
  \<^verbatim>\<open>artistjoiner\<close>. The result is the pattern with \<^verbatim>\<open>artist\<close>, \<^verbatim>\<open>album\<close> (the group name),
  \<^verbatim>\<open>year\<close> (the group year) and \<^verbatim>\<open>format\<close> substituted. \<^verbatim>\<open>renderName\<close> is a function of the
  configuration and the metadata alone, so equal inputs give equal names.
\<close>

theorem renderName_renders:
  assumes artists: "getpath td [''group'', ''musicInfo'', ''artists''] = Inr (JList as)"
    and threshold: "getpath config [''pattern'', ''listindividualartists''] = Inr (JInt t)"
    and fmt: "getpath td [''torrent'', ''format''] = Inr f"
    and album: "getpath td [''group'', ''name''] = Inr al"
    and year: "getpath td [''group'', ''year''] = Inr y"
    and pat: "getpath config [''pattern'', ''string''] = Inr (JStr (template_text ps))"
    and wf: "list_all well_formed ps"
  shows
    "(t < int (length as) \<longrightarrow>
        getpath config [''pattern'', ''variousartists''] = Inr va \<longrightarrow>
        list_all (fillable (formatdata va al y f)) ps \<longrightarrow>
          renderArtist config td = Inr va \<and>
          renderName config td = Inr (concat (map (fill (formatdata va al y f)) ps)))
     \<and> (\<not> t < int (length as) \<longrightarrow>
        getpath config [''pattern'', ''artistjoiner''] = Inr (JStr j) \<longrightarrow>
        list_comp (\<lambda>a. getitem a ''name'') as = Inr (map JStr ns) \<longrightarrow>
        list_all (fillable (formatdata (JStr (py_join j (sort ns))) al y f)) ps \<longrightarrow>
          renderArtist config td = Inr (JStr (py_join j (sort ns))) \<and>
          renderName config td =
            Inr (concat (map (fill (formatdata (JStr (py_join j (sort ns))) al y f)) ps)))"
proof (intro conjI impI)
  assume many: "t < int (length as)"
    and va: "getpath config [''pattern'', ''variousartists''] = Inr va"
    and fl: "list_all (fillable (formatdata va al y f)) ps"
  from renderArtist_various [OF artists threshold many] va
  show a: "renderArtist config td = Inr va" by simp
  show "renderName config td = Inr (concat (map (fill (formatdata va al y f)) ps))"
    by (rule renderName_template [OF a fmt album year pat wf fl])
next
  assume few: "\<not> t < int (length as)"
    and j: "getpath config [''pattern'', ''artistjoiner''] = Inr (JStr j)"
    and ns: "list_comp (\<lambda>a. getitem a ''name'') as = Inr (map JStr ns)"
    and fl: "list_all (fillable (formatdata (JStr (py_join j (sort ns))) al y f)) ps"
  show a: "renderArtist config td = Inr (JStr (py_join j (sort ns)))"
    by (rule renderArtist_joined [OF artists threshold few j ns])
  show "renderName config td =
      Inr (concat (map (fill (formatdata (JStr (py_join j (sort ns))) al y f)) ps))"
    by (rule renderName_template [OF a fmt album year pat wf fl])
qed

lemma str_int_2020: "str_int 2020 = ''2020''"
  by code_simp

lemma sort_duo: "sort [''Zed'', ''Abe''] = [''Abe'', ''Zed'']"
  by code_simp

text \<open>Two artists under a threshold of two: the names are sorted and joined.\<close>

theorem renderName_renders_witness:
  "renderName cfg_example td_duo = Inr ''Abe & Zed - Album X (2020) [FLAC]''"
proof -
  have 1: "getpath td_duo [''group'', ''musicInfo'', ''artists'']
      = Inr (JList [JObj [(''name'', JStr ''Zed'')], JObj [(''name'', JStr ''Abe'')]])"
    by (simp add: td_duo_def bnd_def)
  have 2: "getpath cfg_example [''pattern'', ''listindividualartists''] = Inr (JInt 2)"
    by (simp add: cfg_example_def bnd_def)
  have 3: "getpath td_duo [''torrent'', ''format''] = Inr (JStr ''FLAC'')"
    by (simp add: td_duo_def bnd_def)
  have 4: "getpath td_duo [''group'', ''name''] = Inr (JStr ''Album X'')"
    by (simp add: td_duo_def bnd_def)
  have 5: "getpath td_duo [''group'', ''year''] = Inr (JInt 2020)"
    by (simp add: td_duo_def bnd_def)
  have 6: "getpath cfg_example [''pattern'', ''string''] = Inr (JStr (template_text ps_example))"
    by (simp add: cfg_example_def bnd_def template_text_def ps_example_def)
  have 7: "list_all well_formed ps_example"
    by (simp add: ps_example_def)
  have 8: "getpath cfg_example [''pattern'', ''artistjoiner''] = Inr (JStr '' & '')"
    by (simp add: cfg_example_def bnd_def)
  have 9: "list_comp (\<lambda>a. getitem a ''name'')
      [JObj [(''name'', JStr ''Zed'')], JObj [(''name'', JStr ''Abe'')]]
      = Inr (map JStr [''Zed'', ''Abe''])"
    by (simp add: bnd_def)
  have 10: "list_all (fillable (formatdata (JStr (py_join '' & '' (sort [''Zed'', ''Abe''])))
      (JStr ''Album X'') (JInt 2020) (JStr ''FLAC''))) ps_example"
    by (simp add: ps_example_def formatdata_def)
  from renderName_renders [OF 1 2 3 4 5 6 7, of "JNull" "'' & ''" "[''Zed'', ''Abe'']"] 8 9 10
  show ?thesis
    by (simp add: ps_example_def formatdata_def sort_duo str_int_2020)
qed

subsection \<open>API calls (C3)\<close>














subsection \<open>Page count and page fetches (C4)\<close>

lemma pow2_powi: "pow2 e = 2 powi e"
  by (simp add: pow2_def power_int_def inverse_eq_divide power_one_over)

lemma pow2_pos: "0 < pow2 e"
  by (simp add: pow2_powi)

lemma pow2_add: "pow2 (a + b) = pow2 a * pow2 b"
  by (simp add: pow2_powi power_int_add)

lemma pow2_mono: "a \<le> b \<Longrightarrow> pow2 a \<le> pow2 b"
  by (simp add: pow2_powi power_int_increasing)

lemma pow2_nat: "pow2 (int n) = 2 ^ n"
  by (simp add: pow2_def)

lemma pow2_neg: "pow2 (- int n) = 1 / 2 ^ n"
  by (simp add: pow2_powi power_int_minus inverse_eq_divide)

lemma binexp_lower:
  assumes "0 < a" "0 < b"
  shows "pow2 (binexp a b) * of_int b \<le> of_int a"
proof (cases "pow2 (bitlen a - bitlen b) * of_int b \<le> (of_int a :: rat)")
  case True
  then show ?thesis by (simp add: binexp_def)
next
  case False
  then have e: "binexp a b = bitlen a - bitlen b - 1" by (simp add: binexp_def)
  have la: "1 \<le> bitlen a" using assms(1) bitlen_eq_zero_iff [of a] bitlen_nonneg [of a] by linarith
  have lb: "0 \<le> bitlen b" by (rule bitlen_nonneg)
  from bitlen_bounds [OF assms(1)] have "2 ^ nat (bitlen a - 1) \<le> a" by simp
  then have "(of_int (2 ^ nat (bitlen a - 1)) :: rat) \<le> of_int a" by (simp only: of_int_le_iff)
  then have a: "pow2 (bitlen a - 1) \<le> of_int a"
    using la by (simp add: pow2_def)
  from bitlen_bounds [OF assms(2)] have "b < 2 ^ nat (bitlen b)" by simp
  then have "(of_int b :: rat) < of_int (2 ^ nat (bitlen b))" by (simp only: of_int_less_iff)
  then have b: "of_int b \<le> pow2 (bitlen b)"
    using lb by (simp add: pow2_def)
  have "pow2 (bitlen a - bitlen b - 1) * of_int b \<le> pow2 (bitlen a - bitlen b - 1) * pow2 (bitlen b)"
    using b pow2_pos [of "bitlen a - bitlen b - 1"] by (simp add: mult_left_mono)
  also have "\<dots> = pow2 (bitlen a - 1)"
    by (simp add: pow2_add [symmetric])
  finally show ?thesis using a e by simp
qed

lemma binexp_less:
  assumes "0 < a" "0 < b" "(of_int a :: rat) < pow2 k * of_int b"
  shows "binexp a b < k"
proof (rule ccontr)
  assume "\<not> binexp a b < k"
  then have "pow2 k \<le> pow2 (binexp a b)" by (simp add: pow2_mono)
  then have "pow2 k * of_int b \<le> pow2 (binexp a b) * of_int b"
    using assms(2) by (simp add: mult_right_mono)
  with binexp_lower [OF assms(1,2)] assms(3) show False by simp
qed

lemma round_half_even_of_int: "round_half_even (of_int n) = n"
  by (simp add: round_half_even_def)

lemma round_half_even_ge:
  assumes "of_int n + 1 / 2 < y"
  shows "n + 1 \<le> round_half_even y"
proof -
  from assms have "of_int n \<le> y" by simp
  then have nf: "n \<le> \<lfloor>y\<rfloor>" by (simp add: le_floor_iff)
  show ?thesis
  proof (cases "n = \<lfloor>y\<rfloor>")
    case True
    with assms have "1 / 2 < y - of_int \<lfloor>y\<rfloor>" by simp
    then show ?thesis using True by (simp add: round_half_even_def Let_def)
  next
    case False
    with nf have "n + 1 \<le> \<lfloor>y\<rfloor>" by simp
    then show ?thesis by (simp add: round_half_even_def Let_def)
  qed
qed

lemma round_half_even_le:
  assumes "y \<le> of_int n"
  shows "round_half_even y \<le> n"
proof -
  have f: "of_int \<lfloor>y\<rfloor> \<le> y" by simp
  from assms have fn: "\<lfloor>y\<rfloor> \<le> n" by (simp add: floor_le_iff)
  show ?thesis
  proof (cases "\<lfloor>y\<rfloor> = n")
    case True
    with f assms have "y = of_int n" by simp
    then show ?thesis by (simp add: round_half_even_of_int)
  next
    case False
    with fn have "\<lfloor>y\<rfloor> + 1 \<le> n" by simp
    then show ?thesis by (simp add: round_half_even_def Let_def)
  qed
qed
lemma float_div_50:
  assumes "0 < N" "N < 50 * 2 ^ 48"
  shows "\<lceil>float_div N 50\<rceil> = \<lceil>(of_int N :: rat) / 50\<rceil> \<and> float_div N 50 \<le> 2 ^ 48"
proof -
  define e where "e = max (binexp N 50) (- 1022)"
  have "(of_int N :: rat) < of_int (50 * 2 ^ 48)" using assms(2) by (simp only: of_int_less_iff)
  then have "(of_int N :: rat) < pow2 48 * of_int 50" by (simp add: pow2_def)
  then have "binexp N 50 < 48" using assms(1) by (intro binexp_less) simp_all
  then have e47: "e \<le> 47" by (simp add: e_def)
  define m where "m = nat (52 - e)"
  have m5: "5 \<le> m" and em: "e - 52 = - int m" using e47 by (simp_all add: m_def)
  have u: "pow2 (e - 52) = 1 / 2 ^ m" unfolding em by (rule pow2_neg)
  define y :: rat where "y = of_int N * 2 ^ m / 50"
  have fd: "float_div N 50 = of_int (round_half_even y) / 2 ^ m"
    unfolding float_div_def Let_def e_def [symmetric] u y_def by simp
  have "(2::rat) ^ 5 \<le> 2 ^ m" using m5 by (intro power_increasing) simp_all
  then have P: "(32::rat) \<le> 2 ^ m" by simp
  define k r where "k = N div 50" and "r = N mod 50"
  have N: "N = 50 * k + r" and r: "0 \<le> r" "r < 50" by (simp_all add: k_def r_def)
  have k0: "0 \<le> k" using assms(1) by (simp add: k_def)
  have "k < 2 ^ 48" using assms(2) by (simp add: k_def)
  then have k48: "k + 1 \<le> 2 ^ 48" by simp
  have yk: "y = of_int (k * 2 ^ m) + of_int r * 2 ^ m / 50"
    by (simp add: y_def N field_simps)
  have xk: "(of_int N :: rat) / 50 = of_int k + of_int r / 50"
    by (simp add: N field_simps)
  show ?thesis
  proof (cases "r = 0")
    case True
    then have "y = of_int (k * 2 ^ m)" by (simp add: yk)
    then have "round_half_even y = k * 2 ^ m" by (simp only: round_half_even_of_int)
    then have v: "float_div N 50 = of_int k" by (simp add: fd)
    have "k \<le> 2 ^ 48" using k48 by simp
    then have "(of_int k :: rat) \<le> of_int (2 ^ 48)" by (simp only: of_int_le_iff)
    then show ?thesis using True by (simp add: v xk)
  next
    case False
    with r have r1: "1 \<le> r" by simp
    then have "(1::rat) \<le> of_int r" by simp
    then have "(1::rat) * 32 \<le> of_int r * 2 ^ m" using P
      by (intro mult_mono) simp_all
    then have "(32::rat) \<le> of_int r * 2 ^ m" by simp
    then have lo: "of_int (k * 2 ^ m) + 1 / 2 < y" by (simp add: yk)
    have "(of_int r :: rat) \<le> 50" using r by simp
    then have "(of_int r :: rat) * 2 ^ m \<le> 50 * 2 ^ m" by (simp add: mult_right_mono)
    then have hi: "y \<le> of_int ((k + 1) * 2 ^ m)" by (simp add: yk field_simps)
    define R where "R = round_half_even y"
    have R1: "k * 2 ^ m + 1 \<le> R" unfolding R_def using lo by (rule round_half_even_ge)
    have R2: "R \<le> (k + 1) * 2 ^ m" unfolding R_def using hi by (rule round_half_even_le)
    have v: "float_div N 50 = of_int R / 2 ^ m" by (simp add: fd R_def)
    from R1 have "(of_int (k * 2 ^ m + 1) :: rat) \<le> of_int R" by (simp only: of_int_le_iff)
    then have "(of_int k :: rat) * 2 ^ m < of_int R" by simp
    then have vlo: "of_int k < float_div N 50" by (simp add: v field_simps)
    from R2 have "(of_int R :: rat) \<le> of_int ((k + 1) * 2 ^ m)" by (simp only: of_int_le_iff)
    then have "(of_int R :: rat) \<le> (of_int k + 1) * 2 ^ m" by simp
    then have vhi: "float_div N 50 \<le> of_int (k + 1)" by (simp add: v field_simps)
    have c1: "\<lceil>float_div N 50\<rceil> = k + 1"
      using vlo vhi by (intro ceiling_unique) simp_all
    have "(0::rat) < of_int r / 50" "(of_int r :: rat) / 50 \<le> 1" using r1 r by simp_all
    then have c2: "\<lceil>(of_int N :: rat) / 50\<rceil> = k + 1"
      unfolding xk by (intro ceiling_unique) simp_all
    have "(of_int (k + 1) :: rat) \<le> of_int (2 ^ 48)" using k48 by (simp only: of_int_le_iff)
    with vhi have "float_div N 50 \<le> 2 ^ 48" by simp
    with c1 c2 show ?thesis by simp
  qed
qed

lemma page_count_exact:
  assumes "0 \<le> N" "N < 50 * 2 ^ 48"
  shows "page_count (JInt N) = Inr \<lceil>(of_int N :: rat) / 50\<rceil>"
proof (cases "N = 0")
  case True
  then show ?thesis by (simp add: page_count_def py_truediv_def bnd_def)
next
  case False
  with assms have p: "0 < N" by simp
  from float_div_50 [OF p assms(2)]
  have c: "\<lceil>float_div N 50\<rceil> = \<lceil>(of_int N :: rat) / 50\<rceil>" and b: "float_div N 50 \<le> 2 ^ 48"
    by simp_all
  have "(2::rat) ^ 48 < 2 ^ 1024" by (intro power_strict_increasing) simp_all
  with b have "\<not> pow2 1024 \<le> float_div N 50" by (simp add: pow2_def)
  then show ?thesis using p c
    by (simp add: page_count_def py_truediv_def bnd_def Let_def)
qed
lemma read_pages_log:
  assumes "py_str userid = Inr us"
  shows "\<exists>sn'. read_pages get (u @ ''/torrents.php'') userid ps (sn, fs)
           = Inr (sn', fs @ map (listing_url u us) ps)"
proof (induction ps arbitrary: sn fs)
  case Nil
  then show ?case by simp
next
  case (Cons p ps)
  have "page_url (u @ ''/torrents.php'') p userid = Inr (listing_url u us p)"
    using assms by (simp add: page_url_def listing_url_def bnd_def)
  moreover from Cons.IH [of "sn @ readPage (get (listing_url u us p))" "fs @ [listing_url u us p]"]
  obtain sn' where "read_pages get (u @ ''/torrents.php'') userid ps
      (sn @ readPage (get (listing_url u us p)), fs @ [listing_url u us p])
      = Inr (sn', (fs @ [listing_url u us p]) @ map (listing_url u us) ps)"
    by blast
  ultimately show ?case by (simp add: bnd_def)
qed

text \<open>
  C4, as the code has it. When the user-profile call reports a seeding count \<open>N\<close> with
  \<open>0 \<le> N < 50 \<sqdot> 2^48\<close>, the page count \<^verbatim>\<open>math.ceil(N / 50)\<close> is the exact ceiling of
  \<open>N / 50\<close>, and \<^verbatim>\<open>getSnatched\<close> fetches exactly that many listing pages: the pages 1 to
  the page count, in order (none when \<open>N = 0\<close>). The bound is the price of the float
  division: from \<open>50 \<sqdot> 2^48 + 1\<close> on the quotient can round down to a whole number.
\<close>

theorem getSnatched_page_fetches:
  assumes url: "getitem config ''url'' = Inr (JStr u)"
    and profile: "ajaxrequest http config authkey ''user'' [(''id'', userid)] = Inr profile"
    and seeding: "getpath profile [''response'', ''community'', ''seeding''] = Inr (JInt N)"
    and range: "0 \<le> N" "N < 50 * 2 ^ 48"
    and uid: "py_str userid = Inr us"
  shows "page_count (JInt N) = Inr \<lceil>(of_int N :: rat) / 50\<rceil>
     \<and> (\<exists>snatches' fetched.
          getSnatched http get config authkey userid snatches = Inr (snatches', fetched)
          \<and> int (length fetched) = \<lceil>(of_int N :: rat) / 50\<rceil>
          \<and> fetched = map (listing_url u us) [0..<nat \<lceil>(of_int N :: rat) / 50\<rceil>])"
proof
  show pc: "page_count (JInt N) = Inr \<lceil>(of_int N :: rat) / 50\<rceil>"
    using range by (rule page_count_exact)
  define pages where "pages = \<lceil>(of_int N :: rat) / 50\<rceil>"
  have "0 \<le> (of_int N :: rat) / 50" using range(1) by simp
  then have nonneg: "0 \<le> pages" unfolding pages_def by (simp add: ceiling_le_iff [symmetric] order_trans [OF _ le_of_int_ceiling])
  from read_pages_log [OF uid, of get u "[0..<nat pages]" snatches "[]"]
  obtain sn' where rp: "read_pages get (u @ ''/torrents.php'') userid [0..<nat pages] (snatches, [])
      = Inr (sn', map (listing_url u us) [0..<nat pages])"
    by auto
  have "getSnatched http get config authkey userid snatches
      = Inr (sn', map (listing_url u us) [0..<nat pages])"
    using url profile seeding pc rp by (simp add: getSnatched_def bnd_def pages_def)
  moreover have "int (length (map (listing_url u us) [0..<nat pages])) = pages"
    using nonneg by simp
  ultimately show "\<exists>snatches' fetched.
          getSnatched http get config authkey userid snatches = Inr (snatches', fetched)
          \<and> int (length fetched) = \<lceil>(of_int N :: rat) / 50\<rceil>
          \<and> fetched = map (listing_url u us) [0..<nat \<lceil>(of_int N :: rat) / 50\<rceil>]"
    unfolding pages_def by blast
qed

text \<open>A seeding count of 51 makes two fetches, of the pages 1 and 2.\<close>

theorem getSnatched_page_fetches_witness:
  "\<exists>snatches'. getSnatched (http_profile 51) (\<lambda>url. []) cfg_example JNull (JInt 7) []
      = Inr (snatches', [''https://tracker/torrents.php?type=seeding&page=1&userid=7'',
                         ''https://tracker/torrents.php?type=seeding&page=2&userid=7''])"
proof -
  have u: "getitem cfg_example ''url'' = Inr (JStr ''https://tracker'')"
    by (simp add: cfg_example_def)
  define profile where "profile = JObj [(''status'', JStr ''success''),
      (''response'', JObj [(''community'', JObj [(''seeding'', JInt 51)])])]"
  have p: "ajaxrequest (http_profile 51) cfg_example JNull ''user'' [(''id'', JInt 7)] = Inr profile"
    by (simp add: ajaxrequest_def cfg_example_def bnd_def http_profile_def decode_response_def
        profile_def)
  have s: "getpath profile [''response'', ''community'', ''seeding''] = Inr (JInt 51)"
    by (simp add: profile_def bnd_def)
  have i: "py_str (JInt 7) = Inr ''7''" "str_int 1 = ''1''" "str_int 2 = ''2''"
    by (simp_all add: str_int_def dec_nat.simps digit_char_def)
  have c: "\<lceil>(51::rat) / 50\<rceil> = 2" by (simp add: ceiling_rat_numeral)
  have l: "[0..<2] = [0, Suc 0]" by (simp add: upt_rec)
  from getSnatched_page_fetches [OF u p s _ _ i(1), of "\<lambda>url. []" "[]"]
  show ?thesis by (simp add: c l listing_url_def i)
qed

lemma bitlen_50: "bitlen 50 = 6"
  by (rule antisym) (simp_all add: bitlen_le_iff_power bitlen_ge_iff_power)

lemma bitlen_big: "bitlen 14073748835532801 = 54"
  by (rule antisym) (simp_all add: bitlen_le_iff_power bitlen_ge_iff_power)

text \<open>The claim as stated fails at \<open>N = 50 \<sqdot> 2^48 + 1\<close>: the exact quotient is
  \<open>2^48 + 0.02\<close>, the nearest double is \<open>2^48\<close>, and the page count is one short.\<close>

theorem page_count_counterexample:
  "page_count (JInt 14073748835532801) = Inr 281474976710656
   \<and> \<lceil>(14073748835532801 :: rat) / 50\<rceil> = 281474976710657"
  by (simp add: page_count_def bnd_def py_truediv_def float_div_def binexp_def pow2_def
      round_half_even_def Let_def bitlen_50 bitlen_big floor_rat_numeral ceiling_rat_numeral)

subsection \<open>Scraping a page (C5)\<close>
















subsection \<open>Missing metadata (C6)\<close>

lemma renderName_missing_artists:
  "getpath td [''group'', ''musicInfo'', ''artists''] = Inl e \<Longrightarrow> renderName config td = Inl e"
  by (simp add: renderName_def renderArtist_def bnd_def)

lemma renderName_missing_later:
  assumes "getpath td [''torrent'', ''format''] = Inl e \<or> getpath td [''group'', ''name''] = Inl e
    \<or> getpath td [''group'', ''year''] = Inl e"
  shows "\<exists>e'. renderName config td = Inl e'"
proof (cases "renderArtist config td")
  case (Inl e')
  then show ?thesis by (simp add: renderName_def bnd_def)
next
  case (Inr a)
  with assms show ?thesis
    by (auto simp: renderName_def bnd_def split: sum.splits)
qed

lemma renderName_missing:
  "p \<in> set required_fields \<Longrightarrow> getpath td p = Inl e \<Longrightarrow> \<exists>e'. renderName config td = Inl e'"
  unfolding required_fields_def
  using renderName_missing_artists [of td e config] renderName_missing_later [of td e config]
  by auto

lemma processFiles_abort:
  "processFiles charref config pre = (cmds, None) \<Longrightarrow>
   processRelease charref config (snd kv) = Inl e \<Longrightarrow>
   processFiles charref config (pre @ kv # rest) = (cmds, Some e)"
proof (induction pre arbitrary: cmds)
  case Nil
  then show ?case by simp
next
  case (Cons x pre)
  show ?case
  proof (cases "processRelease charref config (snd x)")
    case (Inl e')
    with Cons.prems show ?thesis by simp
  next
    case (Inr r)
    show ?thesis
    proof (cases r)
      case None
      with Inr Cons show ?thesis by simp
    next
      case (Some cmd)
      with Inr Cons.prems obtain cmds' where
        c: "processFiles charref config pre = (cmds', None)" and cm: "cmds = cmd # cmds'"
        by (auto split: prod.splits)
      from Cons.IH [OF c Cons.prems(2)] Some Inr cm show ?thesis by simp
    qed
  qed
qed

lemma processRelease_example: "processRelease (\<lambda>s. s) cfg_example td_example = Inr (Some cp_example)"
  by code_simp

lemma processRelease_noname: "processRelease (\<lambda>s. s) cfg_example td_noname = Inl (KeyError ''name'')"
  by code_simp

text \<open>
  C6, as the code has it. A release that lacks a field \<^verbatim>\<open>renderName\<close> reads (the artist
  list, the format, the group name or the group year) is never given a name: the lookup
  raises (\<^verbatim>\<open>KeyError\<close> with the missing key, for a key missing from a dict) and
  \<^verbatim>\<open>renderName\<close> raises with it; nothing is substituted. The exception is not caught: it
  leaves \<^verbatim>\<open>processRelease\<close> and ends the loop of \<^verbatim>\<open>processFiles\<close>, so the commands issued are
  those of the releases before the failing one, and no release after it is looked at.
\<close>

theorem missing_field_ends_the_run:
  "(\<forall>p \<in> set required_fields. \<forall>e. getpath td p = Inl e \<longrightarrow> (\<exists>e'. renderName config td = Inl e'))
   \<and> (map_of kvs k = None \<longrightarrow> getitem (JObj kvs) k = Inl (KeyError k))
   \<and> (getpath td [''group'', ''musicInfo'', ''artists''] = Inl e \<longrightarrow> renderName config td = Inl e)
   \<and> (renderArtist config td = Inr a \<and> getpath td [''torrent'', ''format''] = Inl e \<longrightarrow>
        renderName config td = Inl e)
   \<and> (renderArtist config td = Inr a \<and> getpath td [''torrent'', ''format''] = Inr f \<and>
      getpath td [''group'', ''name''] = Inl e \<longrightarrow> renderName config td = Inl e)
   \<and> (renderArtist config td = Inr a \<and> getpath td [''torrent'', ''format''] = Inr f \<and>
      getpath td [''group'', ''name''] = Inr al \<and> getpath td [''group'', ''year''] = Inl e \<longrightarrow>
        renderName config td = Inl e)
   \<and> (classify td = Inr (Desttype (Some c)) \<and> getitem config ''destdirs'' = Inr (JObj dd) \<and>
      map_of dd c = Some dest \<and> getitem config ''torrentdir'' = Inr (JStr tdir) \<and>
      getpath td [''torrent'', ''filePath''] = Inr (JStr fp) \<and> renderName config td = Inl e \<longrightarrow>
        processRelease charref config td = Inl e)
   \<and> (processFiles charref config pre = (cmds, None) \<and>
      processRelease charref config (snd kv) = Inl e \<longrightarrow>
        processFiles charref config (pre @ kv # rest) = (cmds, Some e))"
proof (intro conjI ballI allI impI; (elim conjE)?)
  fix p e
  assume "p \<in> set required_fields" "getpath td p = Inl e"
  then show "\<exists>e'. renderName config td = Inl e'" by (rule renderName_missing)
next
  assume "map_of kvs k = None"
  then show "getitem (JObj kvs) k = Inl (KeyError k)" by simp
next
  assume "getpath td [''group'', ''musicInfo'', ''artists''] = Inl e"
  then show "renderName config td = Inl e" by (rule renderName_missing_artists)
next
  assume "renderArtist config td = Inr a" "getpath td [''torrent'', ''format''] = Inl e"
  then show "renderName config td = Inl e" by (simp add: renderName_def bnd_def)
next
  assume "renderArtist config td = Inr a" "getpath td [''torrent'', ''format''] = Inr f"
    "getpath td [''group'', ''name''] = Inl e"
  then show "renderName config td = Inl e" by (simp add: renderName_def bnd_def)
next
  assume "renderArtist config td = Inr a" "getpath td [''torrent'', ''format''] = Inr f"
    "getpath td [''group'', ''name''] = Inr al" "getpath td [''group'', ''year''] = Inl e"
  then show "renderName config td = Inl e" by (simp add: renderName_def bnd_def)
next
  assume "classify td = Inr (Desttype (Some c))" "getitem config ''destdirs'' = Inr (JObj dd)"
    "map_of dd c = Some dest" "getitem config ''torrentdir'' = Inr (JStr tdir)"
    "getpath td [''torrent'', ''filePath''] = Inr (JStr fp)" "renderName config td = Inl e"
  then show "processRelease charref config td = Inl e"
    by (simp add: processRelease_def bnd_def map_of_mem)
next
  assume "processFiles charref config pre = (cmds, None)"
    "processRelease charref config (snd kv) = Inl e"
  then show "processFiles charref config (pre @ kv # rest) = (cmds, Some e)"
    by (rule processFiles_abort)
qed

text \<open>Three releases, the second without a group name: the first is placed, the loop
  ends with the \<^verbatim>\<open>KeyError\<close>, the third is never reached.\<close>

theorem missing_field_ends_the_run_witness:
  "processFiles (\<lambda>s. s) cfg_example [(1, td_example), (2, td_noname), (3, td_example)]
     = ([cp_example], Some (KeyError ''name''))"
proof -
  have a: "processFiles (\<lambda>s. s) cfg_example [(1, td_example)] = ([cp_example], None)"
    by (simp add: processRelease_example)
  have b: "processRelease (\<lambda>s. s) cfg_example (snd (2, td_noname)) = Inl (KeyError ''name'')"
    by (simp add: processRelease_noname)
  from missing_field_ends_the_run [where charref = "\<lambda>s. s" and config = cfg_example
      and pre = "[(1, td_example)]" and cmds = "[cp_example]" and kv = "(2, td_noname)"
      and e = "KeyError ''name''" and rest = "[(3, td_example)]"] a b
  show ?thesis by simp
qed

text \<open>The claim as stated fails: the release after the failing one is not processed,
  although on its own it is placed.\<close>

theorem missing_field_counterexample:
  "processFiles (\<lambda>s. s) cfg_example [(1, td_noname), (2, td_example)] = ([], Some (KeyError ''name''))
   \<and> processFiles (\<lambda>s. s) cfg_example [(2, td_example)] = ([cp_example], None)"
  by (simp add: processRelease_example processRelease_noname)

subsection \<open>The source path of a placement (C7)\<close>








subsection \<open>Progress of the metadata fetch (C9)\<close>

lemma bitlen_1: "bitlen 1 = 1"
  by (rule antisym) (simp_all add: bitlen_le_iff_power bitlen_ge_iff_power)

lemma bitlen_3: "bitlen 3 = 2"
  by (rule antisym) (simp_all add: bitlen_le_iff_power bitlen_ge_iff_power)

lemma truediv_1_3: "py_truediv 1 3 = Inr (6004799503160661 / 18014398509481984)"
  by (simp add: py_truediv_def float_div_def binexp_def pow2_def round_half_even_def Let_def
      bitlen_1 bitlen_3 floor_rat_numeral)

lemma truediv_0_3: "py_truediv 0 3 = Inr 0"
  by (simp add: py_truediv_def)

lemma progress_example:
  "progress_of [(1, 10), (2, 20), (1, 10)] (1, 10) = Inr (0, False)"
  "progress_of [(1, 10), (2, 20), (1, 10)] (2, 20) = Inr (6004799503160661 / 18014398509481984, True)"
  by (simp_all add: progress_of_def bnd_def truediv_1_3 truediv_0_3)

lemma fetch_ok:
  "bnd (ajaxrequest http_ok cfg_example JNull ''torrent'' [(''id'', v)]) (\<lambda>r. getitem r ''response'')
     = Inr (JObj [])"
  by (simp add: ajaxrequest_def cfg_example_def bnd_def http_ok_def decode_response_def)

text \<open>
  C9 fails on the code for a snatch list with a repeated record. \<^verbatim>\<open>scanTorrents\<close> computes
  the fraction from \<^verbatim>\<open>self.snatches.index(id)\<close>, the first position of the record, so the
  second visit of a record reports the fraction of its first visit. For the list
  \<^verbatim>\<open>[(1, 10), (2, 20), (1, 10)]\<close> the fractions handed to \<^verbatim>\<open>printProgressBar\<close> are 0, the
  double nearest to 1/3, and 0 again.
\<close>

theorem scanTorrents_progress_falls_back:
  "map fst (fst (fst (scanTorrents http_ok cfg_example JNull [(1, 10), (2, 20), (1, 10)] [])))
     = [0, 6004799503160661 / 18014398509481984, 0]"
  by (simp add: scanTorrents_def progress_example fetch_ok)

subsection \<open>Configuration validation (C10)\<close>



end
